theory Spec2Isabelle
  imports Main
begin

section \<open>The configuration header of the ESP32 MQTT GPIO controller\<close>

text \<open>
  The embedded file is \<^verbatim>\<open>firmware/ESP32_MQTT_GPIO_Controller/config.h\<close>. It holds
  object-like macros and one \<^verbatim>\<open>const int\<close> array; it defines no function.

  \<^item> A macro whose body is a string literal is a \<^typ>\<open>string\<close>.
  \<^item> A macro whose body is a decimal literal is an \<^typ>\<open>int\<close>. Every literal of the
    header is below \<open>2 ^ 31\<close> (lemma \<open>literals_fit_int\<close>), so it has the C type
    \<^verbatim>\<open>int\<close> on the 32-bit target and its value is the number written. The header does no
    arithmetic, hence nothing can wrap.
  \<^item> A macro body made of a macro name followed by a string literal expands to two adjacent
    string literals, which the compiler joins: list append.
\<close>

subsection \<open>WiFi configuration\<close>

definition WIFI_SSID :: string where
  "WIFI_SSID = ''<your_wifi_ssid>''"

definition WIFI_PASSWORD :: string where
  "WIFI_PASSWORD = ''<your_wifi_password>''"

definition WIFI_TIMEOUT :: int where
  "WIFI_TIMEOUT = 20000"

subsection \<open>MQTT configuration\<close>

definition MQTT_BROKER :: string where
  "MQTT_BROKER = ''<your_mqtt_broker>''"

definition MQTT_PORT :: int where
  "MQTT_PORT = 8883"

definition MQTT_CLIENT_ID :: string where
  "MQTT_CLIENT_ID = ''ESP32_GPIO_Controller''"

definition MQTT_USERNAME :: string where
  "MQTT_USERNAME = ''<your_mqtt_username>''"

definition MQTT_PASSWORD :: string where
  "MQTT_PASSWORD = ''<your_mqtt_password>''"

definition MQTT_RECONNECT_DELAY :: int where
  "MQTT_RECONNECT_DELAY = 5000"

subsection \<open>MQTT topics\<close>

definition MQTT_TOPIC_PREFIX :: string where
  "MQTT_TOPIC_PREFIX = ''esp32/gpio''"

definition MQTT_TOPIC_CONTROL :: string where
  "MQTT_TOPIC_CONTROL = MQTT_TOPIC_PREFIX @ ''/control''"

definition MQTT_TOPIC_STATUS :: string where
  "MQTT_TOPIC_STATUS = MQTT_TOPIC_PREFIX @ ''/status''"

definition MQTT_TOPIC_TELEMETRY :: string where
  "MQTT_TOPIC_TELEMETRY = MQTT_TOPIC_PREFIX @ ''/telemetry''"

subsection \<open>GPIO pin configuration\<close>

definition NUM_CONTROL_PINS :: int where
  "NUM_CONTROL_PINS = 4"

text \<open>
  The declaration \<^verbatim>\<open>const int CONTROL_PINS[NUM_CONTROL_PINS] = { ... }\<close> has two parts: the
  bound between the brackets and the brace-enclosed initializer list. \<open>array_decl\<close> is what
  the language makes of the two: the bound must be positive, a list longer than the bound is
  rejected (\<open>None\<close>: the translation unit does not compile), and a shorter one is filled up
  with zeros. The array always has as many elements as the bound says.
\<close>

definition array_decl :: "int \<Rightarrow> int list \<Rightarrow> int list option" where
  "array_decl bound inits =
     (if 0 < bound \<and> int (length inits) \<le> bound
      then Some (inits @ replicate (nat bound - length inits) 0)
      else None)"

definition CONTROL_PINS_initializer :: "int list" where
  "CONTROL_PINS_initializer = [5, 15, 17, 18]"

definition CONTROL_PINS :: "int list option" where
  "CONTROL_PINS = array_decl NUM_CONTROL_PINS CONTROL_PINS_initializer"

subsection \<open>Sensor pins\<close>

text \<open>
  \<^verbatim>\<open>DHT22\<close> is a name of the sensor library; the header's comment gives the two choices.
\<close>

datatype dht_type = DHT11 | DHT22

definition DHT_SENSOR_PIN :: int where
  "DHT_SENSOR_PIN = 4"

definition DHT_SENSOR_TYPE :: dht_type where
  "DHT_SENSOR_TYPE = DHT22"

subsection \<open>Debug settings\<close>

definition DEBUG_ENABLED :: bool where
  "DEBUG_ENABLED = True"

definition SERIAL_BAUD_RATE :: int where
  "SERIAL_BAUD_RATE = 115200"

section \<open>Basic facts\<close>

lemma literals_fit_int:
  "list_all (\<lambda>v. 0 \<le> v \<and> v < 2 ^ 31)
     ([WIFI_TIMEOUT, MQTT_PORT, MQTT_RECONNECT_DELAY, NUM_CONTROL_PINS, DHT_SENSOR_PIN,
       SERIAL_BAUD_RATE] @ CONTROL_PINS_initializer)"
  by (simp add: WIFI_TIMEOUT_def MQTT_PORT_def MQTT_RECONNECT_DELAY_def NUM_CONTROL_PINS_def
      DHT_SENSOR_PIN_def SERIAL_BAUD_RATE_def CONTROL_PINS_initializer_def)

lemma CONTROL_PINS_value: "CONTROL_PINS = Some [5, 15, 17, 18]"
  by (simp add: CONTROL_PINS_def array_decl_def NUM_CONTROL_PINS_def CONTROL_PINS_initializer_def)

section \<open>MQTT topics\<close>

text \<open>
  Claim C1. Each of the three topic constants is the topic prefix followed by one suffix,
  \<open>/control\<close>, \<open>/status\<close> and \<open>/telemetry\<close> respectively. The prefix is \<open>esp32/gpio\<close>, so the
  control topic is \<open>esp32/gpio/control\<close>, the status topic is \<open>esp32/gpio/status\<close> and the
  telemetry topic is \<open>esp32/gpio/telemetry\<close>; the three suffixes differ from one another.
\<close>

theorem topics_prefix_suffix:
  "MQTT_TOPIC_PREFIX = ''esp32/gpio''
   \<and> MQTT_TOPIC_CONTROL = MQTT_TOPIC_PREFIX @ ''/control''
   \<and> MQTT_TOPIC_STATUS = MQTT_TOPIC_PREFIX @ ''/status''
   \<and> MQTT_TOPIC_TELEMETRY = MQTT_TOPIC_PREFIX @ ''/telemetry''
   \<and> MQTT_TOPIC_CONTROL = ''esp32/gpio/control''
   \<and> MQTT_TOPIC_STATUS = ''esp32/gpio/status''
   \<and> MQTT_TOPIC_TELEMETRY = ''esp32/gpio/telemetry''
   \<and> distinct [''/control'', ''/status'', ''/telemetry'']"
  by (simp add: MQTT_TOPIC_PREFIX_def MQTT_TOPIC_CONTROL_def MQTT_TOPIC_STATUS_def
      MQTT_TOPIC_TELEMETRY_def)

text \<open>
  Claim C10. The control topic, the status topic and the telemetry topic are three
  different strings: the topic the device subscribes to is neither of the two topics it
  publishes to.
\<close>

theorem topics_pairwise_distinct:
  "MQTT_TOPIC_CONTROL \<noteq> MQTT_TOPIC_STATUS
   \<and> MQTT_TOPIC_CONTROL \<noteq> MQTT_TOPIC_TELEMETRY
   \<and> MQTT_TOPIC_STATUS \<noteq> MQTT_TOPIC_TELEMETRY"
  by (simp add: MQTT_TOPIC_CONTROL_def MQTT_TOPIC_STATUS_def MQTT_TOPIC_TELEMETRY_def)

section \<open>Control pins and the sensor pin\<close>

text \<open>
  Claim C2. The declared number of control pins is the number of elements of the
  control-pin array: the declaration is accepted, the array has \<open>NUM_CONTROL_PINS\<close>
  elements, the initializer list has as many entries (no element is a zero filled in by the
  compiler), and that number is 4.
\<close>

theorem num_control_pins_is_length:
  "map_option (\<lambda>pins. int (length pins)) CONTROL_PINS = Some NUM_CONTROL_PINS
   \<and> int (length CONTROL_PINS_initializer) = NUM_CONTROL_PINS
   \<and> NUM_CONTROL_PINS = 4"
  by (simp add: CONTROL_PINS_value NUM_CONTROL_PINS_def CONTROL_PINS_initializer_def)

text \<open>
  Claim C3. The sensor pin is none of the control pins: \<open>DHT_SENSOR_PIN\<close> does not occur in
  the array \<open>CONTROL_PINS\<close>.
\<close>

theorem sensor_pin_not_control_pin:
  "\<exists>pins. CONTROL_PINS = Some pins \<and> DHT_SENSOR_PIN \<notin> set pins"
  by (simp add: CONTROL_PINS_value DHT_SENSOR_PIN_def)

text \<open>
  Claim C4. The control-pin array is exactly \<open>[5, 15, 17, 18]\<close>, the count is 4, no element
  is negative and no element occurs twice.
\<close>

theorem control_pins_exact:
  "CONTROL_PINS = Some [5, 15, 17, 18]
   \<and> NUM_CONTROL_PINS = 4
   \<and> (\<exists>pins. CONTROL_PINS = Some pins \<and> list_all (\<lambda>p. 0 \<le> p) pins \<and> distinct pins)"
  by (simp add: CONTROL_PINS_value NUM_CONTROL_PINS_def)

section \<open>Port and delays\<close>

text \<open>
  Claim C5. The broker port is a valid TCP port number, between 1 and 65535 inclusive; its
  value is 8883.
\<close>

theorem mqtt_port_in_range:
  "1 \<le> MQTT_PORT \<and> MQTT_PORT \<le> 65535 \<and> MQTT_PORT = 8883"
  by (simp add: MQTT_PORT_def)

text \<open>
  Claim C6. The WiFi connection timeout and the MQTT reconnect delay are integers greater
  than zero (20000 and 5000 milliseconds).
\<close>

theorem timeout_and_delay_positive:
  "0 < WIFI_TIMEOUT \<and> 0 < MQTT_RECONNECT_DELAY
   \<and> WIFI_TIMEOUT = 20000 \<and> MQTT_RECONNECT_DELAY = 5000"
  by (simp add: WIFI_TIMEOUT_def MQTT_RECONNECT_DELAY_def)

section \<open>Placeholder credentials\<close>

text \<open>
  Claim C9. As shipped, the WiFi SSID, the WiFi password, the broker host, the MQTT user
  name and the MQTT password are placeholders still to be replaced: each is a non-empty
  string whose first character is \<open><\<close> and whose last character is \<open>>\<close>.
\<close>

theorem credentials_are_placeholders:
  "list_all (\<lambda>s. s \<noteq> [] \<and> hd s = CHR ''<'' \<and> last s = CHR ''>'')
     [WIFI_SSID, WIFI_PASSWORD, MQTT_BROKER, MQTT_USERNAME, MQTT_PASSWORD]"
  by (simp add: WIFI_SSID_def WIFI_PASSWORD_def MQTT_BROKER_def MQTT_USERNAME_def
      MQTT_PASSWORD_def)

end
